theory Spec2Isabelle
  imports Main "HOL-Library.Word"
begin

section \<open>Values of the JavaScript runtime\<close>

text \<open>
  The server is a single TypeScript file, \<^verbatim>\<open>src/index.ts\<close>: an HTTP helper
  (\<^verbatim>\<open>fetchApi\<close>), a renderer (\<^verbatim>\<open>toContent\<close>), a query-string builder
  (\<^verbatim>\<open>qs\<close>) and some forty tool handlers that combine the three.

  Conventions of the model.
  \<^item> Text that the code only concatenates, compares with the empty string and
    JSON-quotes (paths, URLs, the strings inside a JSON value) is a \<open>string\<close>:
    well-formed Unicode text, held as its UTF-8 bytes.
  \<^item> The strings given to the query-string builder are \<open>jsstring\<close>s, sequences of UTF-16
    code units (numbers below \<open>65536\<close>), because \<^verbatim>\<open>encodeURIComponent\<close> looks at surrogate
    pairs and raises URIError on an unpaired surrogate. What it returns is ASCII, a
    \<open>string\<close>.
  \<^item> A JavaScript number is a \<open>safe_integer\<close>: an integer from \<open>- 2^53\<close> to \<open>2^53 - 1\<close>,
    the signed reading of a 54-bit word. A double holds each of them exactly and the
    runtime prints each of them in plain decimal, all digits. The other doubles (larger
    integers, fractions, NaN, the infinities) are outside the model.
  \<^item> An object is the list of its own enumerable properties in the order
    \<^verbatim>\<open>Object.entries\<close> and \<^verbatim>\<open>JSON.stringify\<close> enumerate them; its keys are distinct.
\<close>

type_synonym safe_integer = "54 word"

datatype json =
    JNull
  | JBool bool
  | JNum safe_integer
  | JStr string
  | JArr "json list"
  | JObj "(string \<times> json) list"

text \<open>A value that was thrown. Only the kind matters to the claims.\<close>

datatype js_exception = TypeError | URIError

type_synonym code_unit = nat

type_synonym jsstring = "code_unit list"

text \<open>The code units of ASCII text.\<close>

definition code_units :: "string \<Rightarrow> jsstring" where
  "code_units s = map of_char s"

text \<open>
  An \<^verbatim>\<open>Error\<close> object, as \<^verbatim>\<open>fetch\<close> and \<^verbatim>\<open>res.json()\<close> reject with: its \<^verbatim>\<open>name\<close>
  and its \<^verbatim>\<open>message\<close>.
\<close>

datatype error_object = ErrorObject (err_name: string) (err_message: string)

subsection \<open>Number to string\<close>

definition digit_char :: "nat \<Rightarrow> char" where
  "digit_char d = ''0123456789'' ! d"

fun digits :: "nat \<Rightarrow> string" where
  "digits n = (if n < 10 then [digit_char n] else digits (n div 10) @ [digit_char (n mod 10)])"

declare digits.simps [simp del]

definition Number_toString :: "safe_integer \<Rightarrow> string" where
  "Number_toString n =
     (if sint n < 0 then CHR ''-'' # digits (nat (- sint n)) else digits (nat (sint n)))"

subsection \<open>Array.prototype.join\<close>

fun join :: "string \<Rightarrow> string list \<Rightarrow> string" where
  "join sep [] = []"
| "join sep [x] = x"
| "join sep (x # y # ys) = x @ sep @ join sep (y # ys)"

subsection \<open>encodeURIComponent\<close>

text \<open>
  The runtime's \<^verbatim>\<open>encodeURIComponent\<close>, that is \<^verbatim>\<open>Encode\<close> with the unreserved set: the
  ASCII letters, the digits and \<^verbatim>\<open>- _ . ! ~ * ' ( )\<close>. A code unit of that set stands for
  itself. At any other code unit the code point is read (\<^verbatim>\<open>CodePointAt\<close>): a leading
  surrogate followed by a trailing one is one code point, a surrogate on its own raises
  URIError; the code point becomes \<^verbatim>\<open>%XX\<close> for each octet of its UTF-8 encoding, in
  upper-case hexadecimal.
\<close>

definition uriUnescaped :: "code_unit \<Rightarrow> bool" where
  "uriUnescaped c \<longleftrightarrow>
     (0x41 \<le> c \<and> c \<le> 0x5A) \<or> (0x61 \<le> c \<and> c \<le> 0x7A) \<or> (0x30 \<le> c \<and> c \<le> 0x39)
     \<or> c \<in> set (code_units ''-_.!~*()'') \<or> c = 0x27"

definition is_leading :: "code_unit \<Rightarrow> bool" where
  "is_leading c \<longleftrightarrow> 0xD800 \<le> c \<and> c \<le> 0xDBFF"

definition is_trailing :: "code_unit \<Rightarrow> bool" where
  "is_trailing c \<longleftrightarrow> 0xDC00 \<le> c \<and> c \<le> 0xDFFF"

definition code_point :: "code_unit \<Rightarrow> code_unit \<Rightarrow> nat" where
  "code_point lead trail = (lead - 0xD800) * 0x400 + (trail - 0xDC00) + 0x10000"

definition UTF8_octets :: "nat \<Rightarrow> nat list" where
  "UTF8_octets cp =
     (if cp < 0x80 then [cp]
      else if cp < 0x800 then [0xC0 + cp div 0x40, 0x80 + cp mod 0x40]
      else if cp < 0x10000 then
        [0xE0 + cp div 0x1000, 0x80 + cp div 0x40 mod 0x40, 0x80 + cp mod 0x40]
      else [0xF0 + cp div 0x40000, 0x80 + cp div 0x1000 mod 0x40,
            0x80 + cp div 0x40 mod 0x40, 0x80 + cp mod 0x40])"

definition hex_upper :: "nat \<Rightarrow> char" where
  "hex_upper d = ''0123456789ABCDEF'' ! d"

definition percent_octet :: "nat \<Rightarrow> string" where
  "percent_octet b = [CHR ''%'', hex_upper (b div 16), hex_upper (b mod 16)]"

definition escape :: "nat \<Rightarrow> string" where
  "escape cp = concat (map percent_octet (UTF8_octets cp))"

fun encodeURIComponent :: "jsstring \<Rightarrow> js_exception + string" where
  "encodeURIComponent [] = Inr []"
| "encodeURIComponent (c # cs) =
     (if uriUnescaped c then
        (case encodeURIComponent cs of
           Inl exn \<Rightarrow> Inl exn
         | Inr r \<Rightarrow> Inr (char_of c # r))
      else if is_trailing c then Inl URIError
      else if is_leading c then
        (case cs of
           [] \<Rightarrow> Inl URIError
         | d # ds \<Rightarrow>
             if is_trailing d then
               (case encodeURIComponent ds of
                  Inl exn \<Rightarrow> Inl exn
                | Inr r \<Rightarrow> Inr (escape (code_point c d) @ r))
             else Inl URIError)
      else
        (case encodeURIComponent cs of
           Inl exn \<Rightarrow> Inl exn
         | Inr r \<Rightarrow> Inr (escape c @ r)))"

subsection \<open>JSON.stringify\<close>

text \<open>
  \<^verbatim>\<open>QuoteJSONString\<close>: the double quote and the backslash are escaped, the control
  characters below U+0020 get their short escape or \<^verbatim>\<open>\u00xx\<close> in lower-case
  hexadecimal, everything else is copied.
\<close>

definition hex_lower :: "nat \<Rightarrow> char" where
  "hex_lower d = ''0123456789abcdef'' ! d"

definition quote_char :: "char \<Rightarrow> string" where
  "quote_char c =
     (if c = CHR 0x22 then [CHR 0x5C, CHR 0x22]
      else if c = CHR 0x5C then [CHR 0x5C, CHR 0x5C]
      else if c = CHR 0x08 then [CHR 0x5C, CHR ''b'']
      else if c = CHR 0x09 then [CHR 0x5C, CHR ''t'']
      else if c = CHR 0x0A then [CHR 0x5C, CHR ''n'']
      else if c = CHR 0x0C then [CHR 0x5C, CHR ''f'']
      else if c = CHR 0x0D then [CHR 0x5C, CHR ''r'']
      else if (of_char c :: nat) < 32 then
        [CHR 0x5C, CHR ''u'', CHR ''0'', CHR ''0'',
         hex_lower (of_char c div 16), hex_lower (of_char c mod 16)]
      else [c])"

definition QuoteJSONString :: "string \<Rightarrow> string" where
  "QuoteJSONString s = [CHR 0x22] @ concat (map quote_char s) @ [CHR 0x22]"

text \<open>
  The closing step of \<^verbatim>\<open>SerializeJSONObject\<close> and \<^verbatim>\<open>SerializeJSONArray\<close>: nothing
  between the brackets when there is no member, the members on one line when the gap is
  empty, and one member per line, indented, otherwise.
\<close>

definition bracket :: "string \<Rightarrow> string \<Rightarrow> string \<Rightarrow> string \<Rightarrow> string list \<Rightarrow> string" where
  "bracket opening closing gap stepback partial =
     (if partial = [] then opening @ closing
      else if gap = [] then opening @ join '','' partial @ closing
      else opening @ [CHR 0x0A] @ stepback @ gap
           @ join ('','' @ [CHR 0x0A] @ stepback @ gap) partial
           @ [CHR 0x0A] @ stepback @ closing)"

fun SerializeJSONProperty :: "string \<Rightarrow> string \<Rightarrow> json \<Rightarrow> string"
  and SerializeJSONArray :: "string \<Rightarrow> string \<Rightarrow> json list \<Rightarrow> string list"
  and SerializeJSONObject :: "string \<Rightarrow> string \<Rightarrow> (string \<times> json) list \<Rightarrow> string list"
where
  "SerializeJSONProperty gap indent JNull = ''null''"
| "SerializeJSONProperty gap indent (JBool b) = (if b then ''true'' else ''false'')"
| "SerializeJSONProperty gap indent (JNum n) = Number_toString n"
| "SerializeJSONProperty gap indent (JStr s) = QuoteJSONString s"
| "SerializeJSONProperty gap indent (JArr xs) =
     bracket ''['' '']'' gap indent (SerializeJSONArray gap (indent @ gap) xs)"
| "SerializeJSONProperty gap indent (JObj ms) =
     bracket ''{'' ''}'' gap indent (SerializeJSONObject gap (indent @ gap) ms)"
| "SerializeJSONArray gap indent [] = []"
| "SerializeJSONArray gap indent (x # xs) =
     SerializeJSONProperty gap indent x # SerializeJSONArray gap indent xs"
| "SerializeJSONObject gap indent [] = []"
| "SerializeJSONObject gap indent ((k, v) # ms) =
     (QuoteJSONString k @ '':'' @ (if gap \<noteq> [] then '' '' else []) @ SerializeJSONProperty gap indent v)
       # SerializeJSONObject gap indent ms"

text \<open>\<^verbatim>\<open>JSON.stringify(value)\<close> and \<^verbatim>\<open>JSON.stringify(value, null, 2)\<close>.\<close>

definition JSON_stringify :: "json \<Rightarrow> string" where
  "JSON_stringify v = SerializeJSONProperty [] [] v"

definition JSON_stringify_2 :: "json \<Rightarrow> string" where
  "JSON_stringify_2 v = SerializeJSONProperty ''  '' [] v"

subsection \<open>ToBoolean, ToString and property reads\<close>

text \<open>\<^verbatim>\<open>ToBoolean\<close>; \<open>truthy\<close> is the same on a value that may be \<^verbatim>\<open>undefined\<close> (\<open>None\<close>).\<close>

fun ToBoolean :: "json \<Rightarrow> bool" where
  "ToBoolean JNull = False"
| "ToBoolean (JBool b) = b"
| "ToBoolean (JNum n) = (n \<noteq> 0)"
| "ToBoolean (JStr s) = (s \<noteq> [])"
| "ToBoolean (JArr xs) = True"
| "ToBoolean (JObj ms) = True"

definition truthy :: "json option \<Rightarrow> bool" where
  "truthy v = (case v of None \<Rightarrow> False | Some x \<Rightarrow> ToBoolean x)"

text \<open>
  \<^verbatim>\<open>ToString\<close>, as a template literal applies it. An array joins its elements with
  commas, \<^verbatim>\<open>null\<close> elements counting as empty. A plain object answers
  \<^verbatim>\<open>[object Object]\<close>, unless an own property \<^verbatim>\<open>toString\<close> shadows the inherited
  method: a parsed JSON value is never callable, so the conversion then finds no
  primitive and raises TypeError.
\<close>

fun ToString :: "json \<Rightarrow> js_exception + string"
  and ToString_elements :: "json list \<Rightarrow> js_exception + string list"
where
  "ToString JNull = Inr ''null''"
| "ToString (JBool b) = Inr (if b then ''true'' else ''false'')"
| "ToString (JNum n) = Inr (Number_toString n)"
| "ToString (JStr s) = Inr s"
| "ToString (JArr xs) =
     (case ToString_elements xs of Inl exn \<Rightarrow> Inl exn | Inr parts \<Rightarrow> Inr (join '','' parts))"
| "ToString (JObj ms) =
     (if map_of ms ''toString'' \<noteq> None then Inl TypeError else Inr ''[object Object]'')"
| "ToString_elements [] = Inr []"
| "ToString_elements (x # xs) =
     (case (if x = JNull then Inr [] else ToString x) of
        Inl exn \<Rightarrow> Inl exn
      | Inr s \<Rightarrow>
          (case ToString_elements xs of Inl exn \<Rightarrow> Inl exn | Inr ss \<Rightarrow> Inr (s # ss)))"

text \<open>A template hole \<^verbatim>\<open>${v}\<close> where \<^verbatim>\<open>v\<close> may be \<^verbatim>\<open>undefined\<close>.\<close>

definition template :: "json option \<Rightarrow> js_exception + string" where
  "template v = (case v of None \<Rightarrow> Inr ''undefined'' | Some x \<Rightarrow> ToString x)"

text \<open>
  The property read \<^verbatim>\<open>v.k\<close>, for the keys the code reads (\<^verbatim>\<open>error\<close>, \<^verbatim>\<open>data\<close>,
  \<^verbatim>\<open>message\<close>), which no built-in prototype defines: TypeError on \<^verbatim>\<open>null\<close>, the own
  property of an object, \<^verbatim>\<open>undefined\<close> on every other value.
\<close>

definition Get :: "json \<Rightarrow> string \<Rightarrow> js_exception + json option" where
  "Get v k = (case v of JNull \<Rightarrow> Inl TypeError | JObj ms \<Rightarrow> Inr (map_of ms k) | _ \<Rightarrow> Inr None)"

text \<open>The nullish coalescing \<^verbatim>\<open>a ?? b\<close>.\<close>

definition nullish_or :: "json option \<Rightarrow> json \<Rightarrow> json" where
  "nullish_or a b = (case a of None \<Rightarrow> b | Some JNull \<Rightarrow> b | Some v \<Rightarrow> v)"

section \<open>The content renderer\<close>

text \<open>The return type of \<^verbatim>\<open>toContent\<close>: \<^verbatim>\<open>{ content: { type: "text"; text: string }[] }\<close>.\<close>

record text_block =
  "type" :: string
  "text" :: string

record rendered =
  content :: "text_block list"

text \<open>
  \<^verbatim>\<open>
  function toContent(result: ApiResult) {
    if (result.error) {
      const msg =
        typeof result.error === "string"
          ? result.error
          : result.error.message || JSON.stringify(result.error);
      return { content: [{ type: "text" as const, text: `Error: ${msg}` }] };
    }
    return {
      content: [{ type: "text" as const, text: JSON.stringify(result.data ?? result, null, 2) }],
    };
  }
  \<close>
  The annotation \<^verbatim>\<open>ApiResult\<close> is not checked at run time (\<^verbatim>\<open>fetchApi\<close> casts whatever was
  parsed), so the model takes any JSON value and returns what was thrown, if anything was.
\<close>

definition error_msg :: "json option \<Rightarrow> js_exception + json" where
  "error_msg error =
     (case error of
        None \<Rightarrow> Inl TypeError
      | Some (JStr s) \<Rightarrow> Inr (JStr s)
      | Some err \<Rightarrow>
          (case Get err ''message'' of
             Inl exn \<Rightarrow> Inl exn
           | Inr message \<Rightarrow>
               Inr (case message of
                      None \<Rightarrow> JStr (JSON_stringify err)
                    | Some m \<Rightarrow> if ToBoolean m then m else JStr (JSON_stringify err))))"

definition text_content :: "string \<Rightarrow> rendered" where
  "text_content s = \<lparr>content = [\<lparr>type = ''text'', text = s\<rparr>]\<rparr>"

definition toContent :: "json \<Rightarrow> js_exception + rendered" where
  "toContent result =
     (case Get result ''error'' of
        Inl exn \<Rightarrow> Inl exn
      | Inr error \<Rightarrow>
          if truthy error then
            (case error_msg error of
               Inl exn \<Rightarrow> Inl exn
             | Inr msg \<Rightarrow>
                 (case ToString msg of
                    Inl exn \<Rightarrow> Inl exn
                  | Inr s \<Rightarrow> Inr (text_content (''Error: '' @ s))))
          else
            (case Get result ''data'' of
               Inl exn \<Rightarrow> Inl exn
             | Inr data \<Rightarrow> Inr (text_content (JSON_stringify_2 (nullish_or data result)))))"

section \<open>The query-string builder\<close>

text \<open>
  \<^verbatim>\<open>
  function qs(params: Record<string, string | number | boolean | undefined>): string {
    const parts: string[] = [];
    for (const [k, v] of Object.entries(params)) {
      if (v !== undefined && v !== null && v !== "") {
        parts.push(`${encodeURIComponent(k)}=${encodeURIComponent(String(v))}`);
      }
    }
    return parts.length ? `?${parts.join("&")}` : "";
  }
  \<close>
  A parameter value is one of the declared alternatives, or the \<^verbatim>\<open>null\<close> the loop also
  tests for. \<open>params\<close> is \<^verbatim>\<open>Object.entries(params)\<close>.
\<close>

datatype qs_value = QUndefined | QNull | QBool bool | QNum safe_integer | QStr jsstring

fun String :: "qs_value \<Rightarrow> jsstring" where
  "String QUndefined = code_units ''undefined''"
| "String QNull = code_units ''null''"
| "String (QBool b) = code_units (if b then ''true'' else ''false'')"
| "String (QNum n) = code_units (Number_toString n)"
| "String (QStr s) = s"

text \<open>
  The loop, with \<open>parts\<close> as it stands before the entry; an exception raised by the
  encoding of a key or of a value leaves the loop and the function.
\<close>

fun qs_loop :: "(jsstring \<times> qs_value) list \<Rightarrow> string list \<Rightarrow> js_exception + string list" where
  "qs_loop [] parts = Inr parts"
| "qs_loop ((k, v) # rest) parts =
     (if v \<noteq> QUndefined \<and> v \<noteq> QNull \<and> v \<noteq> QStr [] then
        (case encodeURIComponent k of
           Inl exn \<Rightarrow> Inl exn
         | Inr key \<Rightarrow>
             (case encodeURIComponent (String v) of
                Inl exn \<Rightarrow> Inl exn
              | Inr val \<Rightarrow> qs_loop rest (parts @ [key @ ''='' @ val])))
      else qs_loop rest parts)"

definition qs :: "(jsstring \<times> qs_value) list \<Rightarrow> js_exception + string" where
  "qs params =
     (case qs_loop params [] of
        Inl exn \<Rightarrow> Inl exn
      | Inr parts \<Rightarrow> Inr (if length parts \<noteq> 0 then ''?'' @ join ''&'' parts else []))"

section \<open>The HTTP helper\<close>

text \<open>
  The process-wide configuration, read from the environment at start-up, and the
  request \<^verbatim>\<open>fetch(url, init)\<close> is called with.
\<close>

record config =
  API_BASE :: string
  API_KEY :: string

record request =
  url :: string
  "method" :: string
  headers :: "(string \<times> string) list"
  body :: "string option"

text \<open>
  How a promise settles. A response carries its HTTP status and how \<^verbatim>\<open>res.json()\<close>
  settles: with the parsed body, or rejected (the body is not JSON, or could not be
  read). The network is whatever answers a request.
\<close>

datatype 'a settled = Resolves 'a | Rejects error_object

record response =
  status :: nat
  json_body :: "json settled"

type_synonym network = "request \<Rightarrow> response settled"

text \<open>\<^verbatim>\<open>String(err)\<close> on an \<^verbatim>\<open>Error\<close> object, that is \<^verbatim>\<open>Error.prototype.toString\<close>.\<close>

fun String_error :: "error_object \<Rightarrow> string" where
  "String_error (ErrorObject name msg) =
     (if name = [] then msg else if msg = [] then name else name @ '': '' @ msg)"

text \<open>
  \<^verbatim>\<open>
  async function fetchApi(path: string, method: string = "GET",
                          body?: Record<string, unknown>): Promise<ApiResult> {
    const url = `${API_BASE}${path}`;
    const headers = { Authorization: `Bearer ${API_KEY}`, "Content-Type": "application/json" };
    const init: RequestInit = { method, headers };
    if (body && method !== "GET") {
      init.body = JSON.stringify(body);
    }
    try {
      const res = await fetch(url, init);
      const json = (await res.json()) as ApiResult;
      return json;
    } catch (err) {
      return { error: { code: "NETWORK_ERROR", message: String(err) } };
    }
  }
  \<close>
  \<open>fetchApi_request\<close> is the part before the \<^verbatim>\<open>try\<close>, \<open>fetchApi_settle\<close> the
  \<^verbatim>\<open>try\<close>/\<^verbatim>\<open>catch\<close> once \<^verbatim>\<open>fetch\<close> has settled. A caller that leaves \<^verbatim>\<open>method\<close> out
  passes \<open>''GET''\<close>; one that leaves \<^verbatim>\<open>body\<close> out passes \<open>None\<close>. An object is truthy, so
  \<^verbatim>\<open>body &&\<close> asks whether a body was given.
\<close>

definition fetchApi_request ::
  "config \<Rightarrow> string \<Rightarrow> string \<Rightarrow> (string \<times> json) list option \<Rightarrow> request" where
  "fetchApi_request cfg path meth body_arg =
     \<lparr> url = API_BASE cfg @ path,
       method = meth,
       headers = [(''Authorization'', ''Bearer '' @ API_KEY cfg),
                  (''Content-Type'', ''application/json'')],
       body = (case body_arg of
                 None \<Rightarrow> None
               | Some b \<Rightarrow> if meth \<noteq> ''GET'' then Some (JSON_stringify (JObj b)) else None) \<rparr>"

definition network_error :: "error_object \<Rightarrow> json" where
  "network_error err =
     JObj [(''error'', JObj [(''code'', JStr ''NETWORK_ERROR''),
                             (''message'', JStr (String_error err))])]"

definition fetchApi_settle :: "response settled \<Rightarrow> json" where
  "fetchApi_settle outcome =
     (case outcome of
        Rejects err \<Rightarrow> network_error err
      | Resolves res \<Rightarrow>
          (case json_body res of
             Rejects err \<Rightarrow> network_error err
           | Resolves json \<Rightarrow> json))"

definition fetchApi ::
  "config \<Rightarrow> network \<Rightarrow> string \<Rightarrow> string \<Rightarrow> (string \<times> json) list option \<Rightarrow> json" where
  "fetchApi cfg fetch path meth body_arg =
     fetchApi_settle (fetch (fetchApi_request cfg path meth body_arg))"

section \<open>Tool handlers\<close>

text \<open>
  A handler receives the arguments object the schema validation let through, here the
  list of its properties, and returns what the renderer returns. The destructuring
  \<^verbatim>\<open>{ id, permanent }\<close> reads two properties (\<^verbatim>\<open>undefined\<close> when absent);
  \<^verbatim>\<open>{ id, ...body }\<close> reads one and collects every other property, in order, in \<^verbatim>\<open>body\<close>.
\<close>

definition rest_without :: "string \<Rightarrow> (string \<times> json) list \<Rightarrow> (string \<times> json) list" where
  "rest_without key args = filter (\<lambda>(k, v). k \<noteq> key) args"

text \<open>
  \<^verbatim>\<open>
  async ({ id, ...body }) => {
    return toContent(await fetchApi(`/contacts/${id}`, "PATCH", body));
  }
  \<close>
  and the same for companies, entries, tasks and notes.
\<close>

definition update_contact :: "config \<Rightarrow> network \<Rightarrow> (string \<times> json) list \<Rightarrow> js_exception + rendered" where
  "update_contact cfg fetch args =
     (let id = map_of args ''id''; body = rest_without ''id'' args
      in case template id of
           Inl exn \<Rightarrow> Inl exn
         | Inr id_text \<Rightarrow> toContent (fetchApi cfg fetch (''/contacts/'' @ id_text) ''PATCH'' (Some body)))"

definition update_company :: "config \<Rightarrow> network \<Rightarrow> (string \<times> json) list \<Rightarrow> js_exception + rendered" where
  "update_company cfg fetch args =
     (let id = map_of args ''id''; body = rest_without ''id'' args
      in case template id of
           Inl exn \<Rightarrow> Inl exn
         | Inr id_text \<Rightarrow> toContent (fetchApi cfg fetch (''/companies/'' @ id_text) ''PATCH'' (Some body)))"

definition update_entry :: "config \<Rightarrow> network \<Rightarrow> (string \<times> json) list \<Rightarrow> js_exception + rendered" where
  "update_entry cfg fetch args =
     (let id = map_of args ''id''; body = rest_without ''id'' args
      in case template id of
           Inl exn \<Rightarrow> Inl exn
         | Inr id_text \<Rightarrow> toContent (fetchApi cfg fetch (''/entries/'' @ id_text) ''PATCH'' (Some body)))"

definition update_task :: "config \<Rightarrow> network \<Rightarrow> (string \<times> json) list \<Rightarrow> js_exception + rendered" where
  "update_task cfg fetch args =
     (let id = map_of args ''id''; body = rest_without ''id'' args
      in case template id of
           Inl exn \<Rightarrow> Inl exn
         | Inr id_text \<Rightarrow> toContent (fetchApi cfg fetch (''/tasks/'' @ id_text) ''PATCH'' (Some body)))"

definition update_note :: "config \<Rightarrow> network \<Rightarrow> (string \<times> json) list \<Rightarrow> js_exception + rendered" where
  "update_note cfg fetch args =
     (let id = map_of args ''id''; body = rest_without ''id'' args
      in case template id of
           Inl exn \<Rightarrow> Inl exn
         | Inr id_text \<Rightarrow> toContent (fetchApi cfg fetch (''/notes/'' @ id_text) ''PATCH'' (Some body)))"

text \<open>
  \<^verbatim>\<open>
  async ({ id, permanent }) => {
    const query = permanent ? "?permanent=true" : "";
    return toContent(await fetchApi(`/companies/${id}${query}`, "DELETE"));
  }
  \<close>
  and the same for notes.
\<close>

definition delete_company :: "config \<Rightarrow> network \<Rightarrow> (string \<times> json) list \<Rightarrow> js_exception + rendered" where
  "delete_company cfg fetch args =
     (let id = map_of args ''id''; permanent = map_of args ''permanent'';
          query = (if truthy permanent then ''?permanent=true'' else [])
      in case template id of
           Inl exn \<Rightarrow> Inl exn
         | Inr id_text \<Rightarrow> toContent (fetchApi cfg fetch (''/companies/'' @ id_text @ query) ''DELETE'' None))"

definition delete_note :: "config \<Rightarrow> network \<Rightarrow> (string \<times> json) list \<Rightarrow> js_exception + rendered" where
  "delete_note cfg fetch args =
     (let id = map_of args ''id''; permanent = map_of args ''permanent'';
          query = (if truthy permanent then ''?permanent=true'' else [])
      in case template id of
           Inl exn \<Rightarrow> Inl exn
         | Inr id_text \<Rightarrow> toContent (fetchApi cfg fetch (''/notes/'' @ id_text @ query) ''DELETE'' None))"

section \<open>Vocabulary of the specification\<close>

text \<open>
  The declared type of a result:
  \<^verbatim>\<open>
  interface ApiResult {
    data?: unknown;
    meta?: { total?: number; limit?: number; offset?: number };
    error?: { code?: string; message?: string } | string;
  }
  \<close>
\<close>

definition optional :: "(string \<times> json) list \<Rightarrow> string \<Rightarrow> (json \<Rightarrow> bool) \<Rightarrow> bool" where
  "optional ms k P = (case map_of ms k of None \<Rightarrow> True | Some v \<Rightarrow> P v)"

fun is_string :: "json \<Rightarrow> bool" where
  "is_string (JStr s) = True"
| "is_string v = False"

fun is_number :: "json \<Rightarrow> bool" where
  "is_number (JNum n) = True"
| "is_number v = False"

fun is_meta :: "json \<Rightarrow> bool" where
  "is_meta (JObj ms) =
     (optional ms ''total'' is_number \<and> optional ms ''limit'' is_number
      \<and> optional ms ''offset'' is_number)"
| "is_meta v = False"

fun is_error :: "json \<Rightarrow> bool" where
  "is_error (JStr s) = True"
| "is_error (JObj ms) = (optional ms ''code'' is_string \<and> optional ms ''message'' is_string)"
| "is_error v = False"

fun is_ApiResult :: "json \<Rightarrow> bool" where
  "is_ApiResult (JObj ms) = (optional ms ''meta'' is_meta \<and> optional ms ''error'' is_error)"
| "is_ApiResult v = False"

text \<open>
  The \<^verbatim>\<open>error\<close> field of a parsed body, if it has one, and whether a rendering is the
  renderer's failure branch: one text block that starts with \<^verbatim>\<open>Error: \<close>.
\<close>

definition error_field :: "json \<Rightarrow> json option" where
  "error_field v = (case v of JObj ms \<Rightarrow> map_of ms ''error'' | _ \<Rightarrow> None)"

definition is_failure_text :: "rendered \<Rightarrow> bool" where
  "is_failure_text r = (case content r of [b] \<Rightarrow> take 7 (text b) = ''Error: '' | _ \<Rightarrow> False)"

text \<open>
  Percent-encoding in its own terms. A string is well formed when every surrogate in it
  is half of a pair (\<^verbatim>\<open>String.prototype.isWellFormed\<close>); well-formed text has a UTF-8
  encoding; and the percent-encoding of a sequence of octets keeps each octet that is an
  unreserved ASCII character and writes every other octet as \<^verbatim>\<open>%XX\<close>.
\<close>

fun well_formed :: "jsstring \<Rightarrow> bool" where
  "well_formed [] = True"
| "well_formed (c # cs) =
     (if is_leading c then
        (case cs of [] \<Rightarrow> False | d # ds \<Rightarrow> is_trailing d \<and> well_formed ds)
      else \<not> is_trailing c \<and> well_formed cs)"

fun utf8 :: "jsstring \<Rightarrow> nat list" where
  "utf8 [] = []"
| "utf8 (c # cs) =
     (if is_leading c then
        (case cs of
           [] \<Rightarrow> UTF8_octets c
         | d # ds \<Rightarrow>
             if is_trailing d then UTF8_octets (code_point c d) @ utf8 ds
             else UTF8_octets c @ utf8 cs)
      else UTF8_octets c @ utf8 cs)"

definition percent_encode :: "nat list \<Rightarrow> string" where
  "percent_encode octets =
     concat (map (\<lambda>b. if b < 0x80 \<and> uriUnescaped b then [char_of b] else percent_octet b) octets)"

text \<open>
  The query string in the specification's words: keep the parameters whose value is
  neither \<^verbatim>\<open>undefined\<close>, \<^verbatim>\<open>null\<close> nor the empty string, in their order; percent-encode key
  and value; join with \<^verbatim>\<open>&\<close> after a \<^verbatim>\<open>?\<close>; nothing at all when none is kept. It can be
  built when the keys and values that are kept are well formed.
\<close>

definition qualifies :: "qs_value \<Rightarrow> bool" where
  "qualifies v \<longleftrightarrow> v \<noteq> QUndefined \<and> v \<noteq> QNull \<and> v \<noteq> QStr []"

definition kept :: "(jsstring \<times> qs_value) list \<Rightarrow> (jsstring \<times> qs_value) list" where
  "kept params = filter (\<lambda>(k, v). qualifies v) params"

definition encodable :: "(jsstring \<times> qs_value) list \<Rightarrow> bool" where
  "encodable params = list_all (\<lambda>(k, v). well_formed k \<and> well_formed (String v)) (kept params)"

definition qs_spec :: "(jsstring \<times> qs_value) list \<Rightarrow> string" where
  "qs_spec params =
     (if kept params = [] then []
      else ''?'' @ join ''&''
             (map (\<lambda>(k, v). percent_encode (utf8 k) @ ''='' @ percent_encode (utf8 (String v)))
                (kept params)))"

text \<open>
  The request of a remote call in the specification's terms: a method, a path under the
  base URL, the two fixed headers, and possibly a body.
\<close>

definition api_request :: "config \<Rightarrow> string \<Rightarrow> string \<Rightarrow> string option \<Rightarrow> request" where
  "api_request cfg meth path payload =
     \<lparr> url = API_BASE cfg @ path,
       method = meth,
       headers = [(''Authorization'', ''Bearer '' @ API_KEY cfg),
                  (''Content-Type'', ''application/json'')],
       body = payload \<rparr>"


text \<open>
  The JSON text of an object, one level down: its members in order, each the quoted key,
  a colon and the JSON text of the value, separated by commas between braces.
\<close>

definition compact_object :: "(string \<times> json) list \<Rightarrow> string" where
  "compact_object ms =
     (if ms = [] then ''{}''
      else ''{'' @ join '','' (map (\<lambda>(k, v). QuoteJSONString k @ '':'' @ JSON_stringify v) ms)
           @ ''}'')"

text \<open>
  For the examples: the default base URL with some key, a network that settles every
  request the same way, one that answers a single request, and one that answers every
  request by naming it.
\<close>

definition example_config :: config where
  "example_config = \<lparr>API_BASE = ''https://app.keepsake.place/api/v1'', API_KEY = ''ksk_example''\<rparr>"

definition always :: "response settled \<Rightarrow> network" where
  "always outcome = (\<lambda>req. outcome)"

definition only :: "request \<Rightarrow> response settled \<Rightarrow> network" where
  "only expected outcome =
     (\<lambda>req. if req = expected then outcome
            else Rejects (ErrorObject ''TypeError'' ''fetch failed''))"

definition echo :: network where
  "echo req =
     Resolves \<lparr>status = 200,
               json_body = Resolves (JObj [(''data'', JStr (method req @ '' '' @ url req))])\<rparr>"

section \<open>The query string\<close>

lemma percent_encode_append [simp]:
  "percent_encode (xs @ ys) = percent_encode xs @ percent_encode ys"
  by (simp add: percent_encode_def)

lemma percent_encode_Nil [simp]: "percent_encode [] = []"
  by (simp add: percent_encode_def)

lemma uriUnescaped_ascii: "uriUnescaped c \<Longrightarrow> c < 0x80"
  by (auto simp: uriUnescaped_def code_units_def)

lemma percent_encode_unescaped:
  "uriUnescaped c \<Longrightarrow> percent_encode (UTF8_octets c) = [char_of c]"
  by (frule uriUnescaped_ascii) (simp add: percent_encode_def UTF8_octets_def)

lemma percent_encode_escaped:
  "\<not> uriUnescaped cp \<Longrightarrow> percent_encode (UTF8_octets cp) = escape cp"
  by (simp add: percent_encode_def UTF8_octets_def escape_def)

lemma code_point_escaped: "\<not> uriUnescaped (code_point c d)"
proof
  assume "uriUnescaped (code_point c d)"
  then have "code_point c d < 0x80" by (rule uriUnescaped_ascii)
  then show False by (simp add: code_point_def)
qed

lemma surrogates_disjoint: "is_trailing c \<Longrightarrow> \<not> is_leading c"
  by (simp add: is_leading_def is_trailing_def)

lemma unescaped_no_surrogate: "uriUnescaped c \<Longrightarrow> \<not> is_leading c \<and> \<not> is_trailing c"
  by (frule uriUnescaped_ascii) (simp add: is_leading_def is_trailing_def)

text \<open>
  The runtime's encoder is the percent-encoding of the UTF-8 octets on well-formed
  strings, and raises URIError on the others.
\<close>

lemma encodeURIComponent_percent:
  "encodeURIComponent s =
     (if well_formed s then Inr (percent_encode (utf8 s)) else Inl URIError)"
proof (induction s rule: encodeURIComponent.induct)
  case 1
  show ?case by simp
next
  case (2 c cs)
  show ?case
  proof (cases "uriUnescaped c")
    case True
    with 2(1) unescaped_no_surrogate [OF True] percent_encode_unescaped [OF True]
    show ?thesis by simp
  next
    case False
    show ?thesis
    proof (cases "is_trailing c")
      case True
      with False surrogates_disjoint [OF True] show ?thesis by simp
    next
      case trail: False
      show ?thesis
      proof (cases "is_leading c")
        case lead: False
        with False trail 2(3) percent_encode_escaped [OF False] show ?thesis by simp
      next
        case lead: True
        show ?thesis
        proof (cases cs)
          case Nil
          with False trail lead show ?thesis by simp
        next
          case (Cons d ds)
          show ?thesis
          proof (cases "is_trailing d")
            case True
            with False trail lead Cons 2(2) percent_encode_escaped [OF code_point_escaped [of c d]]
            show ?thesis by simp
          next
            case False
            with \<open>\<not> uriUnescaped c\<close> trail lead Cons show ?thesis by simp
          qed
        qed
      qed
    qed
  qed
qed

lemma qs_loop_kept:
  "qs_loop params parts =
     (if encodable params then
        Inr (parts @ map (\<lambda>(k, v). percent_encode (utf8 k) @ ''='' @ percent_encode (utf8 (String v)))
                       (kept params))
      else Inl URIError)"
proof (induction params arbitrary: parts)
  case Nil
  show ?case by (simp add: encodable_def kept_def)
next
  case (Cons entry rest)
  obtain k v where entry: "entry = (k, v)" by (cases entry)
  show ?case
  proof (cases "qualifies v")
    case False
    then have "kept (entry # rest) = kept rest"
      by (simp add: kept_def entry)
    with False Cons show ?thesis
      by (auto simp: entry encodable_def qualifies_def)
  next
    case True
    then have step: "kept (entry # rest) = (k, v) # kept rest"
      by (simp add: kept_def entry)
    show ?thesis
    proof (cases "well_formed k \<and> well_formed (String v)")
      case False
      with True step show ?thesis
        by (auto simp: entry encodable_def qualifies_def encodeURIComponent_percent)
    next
      case wf: True
      with True step Cons show ?thesis
        by (simp add: entry encodable_def qualifies_def encodeURIComponent_percent)
    qed
  qed
qed

text \<open>For the examples: characters are compared by their codes.\<close>

lemma char_of_eq_iff: "char_of (n :: nat) = c \<longleftrightarrow> n mod 256 = of_char c"
proof
  assume "char_of n = c"
  then have "of_char (char_of n) = (of_char c :: nat)" by simp
  then show "n mod 256 = of_char c" by simp
next
  assume "n mod 256 = of_char c"
  then have "char_of (n mod 256) = char_of (of_char c :: nat)" by simp
  then show "char_of n = c" by simp
qed

lemmas qs_example_defs =
  kept_def qualifies_def code_units_def uriUnescaped_def is_leading_def is_trailing_def
  code_point_def UTF8_octets_def percent_encode_def percent_octet_def hex_upper_def
  Number_toString_def digits.simps digit_char_def char_of_eq_iff

text \<open>
  Claim C1, amended. For every parameter mapping in which the keys and the values of the
  parameters that are kept are well-formed strings, \<^verbatim>\<open>qs\<close> builds the query string the
  specification describes: the parameters whose value is \<^verbatim>\<open>undefined\<close>, \<^verbatim>\<open>null\<close> or the
  empty string are left out, every other one (\<^verbatim>\<open>false\<close> and \<^verbatim>\<open>0\<close> among them, as the
  texts \<^verbatim>\<open>false\<close> and \<^verbatim>\<open>0\<close>) appears as its percent-encoded key, \<^verbatim>\<open>=\<close> and its
  percent-encoded value, in the order of the mapping, joined with \<^verbatim>\<open>&\<close> after a leading
  \<^verbatim>\<open>?\<close>; and the string is empty, not \<^verbatim>\<open>?\<close>, when no parameter is kept. When a key or a
  value that is kept has an unpaired surrogate, \<^verbatim>\<open>qs\<close> raises URIError and builds nothing.
\<close>

theorem qs_meets_spec:
  "qs params = (if encodable params then Inr (qs_spec params) else Inl URIError)
   \<and> qualifies (QBool False) \<and> String (QBool False) = code_units ''false''
   \<and> qualifies (QNum 0) \<and> String (QNum 0) = code_units ''0''"
  by (simp add: qs_def qs_spec_def qs_loop_kept qualifies_def Number_toString_def digits.simps
        digit_char_def)

theorem qs_meets_spec_witness:
  "qs [(code_units ''limit'', QNum 5), (code_units ''offset'', QUndefined),
       (code_units ''sort'', QUndefined), (code_units ''order'', QUndefined),
       (code_units ''include_last_interaction'', QBool False)] =
     Inr ''?limit=5&include_last_interaction=false''
   \<and> qs [(code_units ''q'', QStr (code_units ''a b&c='' @ [0xE9, 0x20AC, 0xD83D, 0xDE00])),
          (code_units ''note'', QStr []), (code_units ''page'', QNull),
          (code_units ''offset'', QNum 0), (code_units ''n'', QNum (- 120))] =
       Inr ''?q=a%20b%26c%3D%C3%A9%E2%82%AC%F0%9F%98%80&offset=0&n=-120''
   \<and> qs [(code_units ''q'', QStr []), (code_units ''page'', QUndefined)] = Inr []"
proof -
  let ?listing = "[(code_units ''limit'', QNum 5), (code_units ''offset'', QUndefined),
       (code_units ''sort'', QUndefined), (code_units ''order'', QUndefined),
       (code_units ''include_last_interaction'', QBool False)]"
  let ?search = "[(code_units ''q'', QStr (code_units ''a b&c='' @ [0xE9, 0x20AC, 0xD83D, 0xDE00])),
          (code_units ''note'', QStr []), (code_units ''page'', QNull),
          (code_units ''offset'', QNum 0), (code_units ''n'', QNum (- 120))]"
  let ?nothing = "[(code_units ''q'', QStr []), (code_units ''page'', QUndefined)]"
  have "encodable ?listing" "encodable ?search" "encodable ?nothing"
    by (simp_all add: encodable_def qs_example_defs)
  moreover have "qs_spec ?listing = ''?limit=5&include_last_interaction=false''"
    by (simp add: qs_spec_def qs_example_defs)
  moreover have "qs_spec ?search = ''?q=a%20b%26c%3D%C3%A9%E2%82%AC%F0%9F%98%80&offset=0&n=-120''"
    by (simp add: qs_spec_def qs_example_defs)
  moreover have "qs_spec ?nothing = []"
    by (simp add: qs_spec_def qs_example_defs)
  ultimately show ?thesis
    using qs_meets_spec [of ?listing] qs_meets_spec [of ?search] qs_meets_spec [of ?nothing]
    by simp
qed

theorem qs_throws_on_lone_surrogate:
  "qualifies (QStr [0xD800])
   \<and> qs [(code_units ''q'', QStr [0xD800])] = Inl URIError
   \<and> qs [(code_units ''limit'', QNum 5), ([0x61, 0xDC00], QBool True)] = Inl URIError"
  by (simp add: qs_def qualifies_def code_units_def uriUnescaped_def is_leading_def
        is_trailing_def escape_def UTF8_octets_def Number_toString_def digits.simps)

section \<open>Rendering\<close>

lemmas json_text_defs =
  JSON_stringify_def JSON_stringify_2_def bracket_def QuoteJSONString_def quote_char_def
  Number_toString_def digit_char_def

lemmas render_defs =
  toContent_def Get_def truthy_def error_msg_def text_content_def nullish_or_def

lemma digits_head: "digits n \<noteq> [] \<and> hd (digits n) \<noteq> CHR ''E''"
proof (induction n rule: digits.induct)
  case (1 n)
  show ?case
  proof (cases "n < 10")
    case True
    then have "n \<in> {0, 1, 2, 3, 4, 5, 6, 7, 8, 9}" by auto
    then show ?thesis
      by (subst digits.simps, subst (2) digits.simps) (auto simp: digit_char_def)
  next
    case False
    with 1 show ?thesis
      by (subst digits.simps, subst (2) digits.simps) simp
  qed
qed

lemma serialize_head:
  "SerializeJSONProperty gap indent v \<noteq> []
   \<and> hd (SerializeJSONProperty gap indent v) \<noteq> CHR ''E''"
  by (cases v) (auto simp: bracket_def QuoteJSONString_def Number_toString_def digits_head)

lemma stringify_2_not_error: "take 7 (JSON_stringify_2 v) \<noteq> ''Error: ''"
proof
  assume prefix: "take 7 (JSON_stringify_2 v) = ''Error: ''"
  have "hd (take 7 (JSON_stringify_2 v)) = hd (JSON_stringify_2 v)"
    by (cases "JSON_stringify_2 v") simp_all
  with prefix have "hd (JSON_stringify_2 v) = CHR ''E''" by simp
  then show False
    using serialize_head [of "''  ''" "[]" v] by (simp add: JSON_stringify_2_def)
qed

lemma is_failure_text_content [simp]:
  "is_failure_text (text_content s) \<longleftrightarrow> take 7 s = ''Error: ''"
  by (simp add: is_failure_text_def text_content_def)

lemma toContent_success:
  "\<not> truthy (map_of ms ''error'') \<Longrightarrow>
   toContent (JObj ms) =
     Inr (text_content (JSON_stringify_2 (nullish_or (map_of ms ''data'') (JObj ms))))"
  by (simp add: toContent_def Get_def)

lemma toContent_error_string:
  "map_of ms ''error'' = Some (JStr s) \<Longrightarrow> s \<noteq> [] \<Longrightarrow>
   toContent (JObj ms) = Inr (text_content (''Error: '' @ s))"
  by (simp add: toContent_def Get_def truthy_def error_msg_def)

lemma toContent_error_message:
  "map_of ms ''error'' = Some (JObj es) \<Longrightarrow> map_of es ''message'' = Some (JStr m) \<Longrightarrow>
   m \<noteq> [] \<Longrightarrow> toContent (JObj ms) = Inr (text_content (''Error: '' @ m))"
  by (simp add: toContent_def Get_def truthy_def error_msg_def)

lemma toContent_error_encoded:
  "map_of ms ''error'' = Some (JObj es) \<Longrightarrow>
   map_of es ''message'' = None \<or> map_of es ''message'' = Some (JStr []) \<Longrightarrow>
   toContent (JObj ms) = Inr (text_content (''Error: '' @ JSON_stringify (JObj es)))"
  by (auto simp: toContent_def Get_def truthy_def error_msg_def)

text \<open>Whatever the parsed value, a rendering comes from one of the two branches.\<close>

lemma toContent_branches:
  "toContent parsed = Inr r \<Longrightarrow>
   (if truthy (error_field parsed) then \<exists>s. r = text_content (''Error: '' @ s)
    else \<exists>v. r = text_content (JSON_stringify_2 v))"
  by (cases parsed)
     (auto simp: toContent_def Get_def error_field_def truthy_def split: sum.splits if_splits)

lemma toContent_classification:
  assumes "toContent parsed = Inr r"
  shows "is_failure_text r \<longleftrightarrow> truthy (error_field parsed)"
  using toContent_branches [OF assms] stringify_2_not_error
  by (auto split: if_splits)

text \<open>On a value of the declared type the renderer returns.\<close>

lemma ApiResult_rendering:
  assumes "is_ApiResult parsed"
  shows "\<exists>s. toContent parsed = Inr (text_content s)"
proof -
  from assms obtain ms where parsed: "parsed = JObj ms" and err: "optional ms ''error'' is_error"
    by (cases parsed) auto
  show ?thesis
  proof (cases "truthy (map_of ms ''error'')")
    case False
    then show ?thesis
      using toContent_success [OF False] by (auto simp: parsed)
  next
    case True
    then obtain e where e: "map_of ms ''error'' = Some e" and te: "ToBoolean e"
      by (auto simp: truthy_def split: option.splits)
    from err e have ie: "is_error e" by (simp add: optional_def)
    show ?thesis
    proof (cases e)
      case (JStr s)
      with te e show ?thesis
        using toContent_error_string [of ms s] by (auto simp: parsed)
    next
      case (JObj es)
      with ie have "optional es ''message'' is_string" by simp
      then consider "map_of es ''message'' = None \<or> map_of es ''message'' = Some (JStr [])"
        | m where "map_of es ''message'' = Some (JStr m)" "m \<noteq> []"
        by (auto simp: optional_def split: option.splits elim: is_string.elims)
      then show ?thesis
      proof cases
        case 1
        then show ?thesis
          using toContent_error_encoded [of ms es] e JObj by (auto simp: parsed)
      next
        case 2
        then show ?thesis
          using toContent_error_message [of ms es m] e JObj by (auto simp: parsed)
      qed
    qed (use ie in simp_all)
  qed
qed

lemma network_error_rendering:
  "\<exists>t. toContent (network_error err) = Inr (text_content (''Error: '' @ t))"
proof (cases "String_error err = []")
  case True
  then show ?thesis
    using toContent_error_encoded
      [of "[(''error'', JObj [(''code'', JStr ''NETWORK_ERROR''),
                              (''message'', JStr (String_error err))])]"
          "[(''code'', JStr ''NETWORK_ERROR''), (''message'', JStr (String_error err))]"]
    by (auto simp: network_error_def)
next
  case False
  then show ?thesis
    using toContent_error_message
      [of "[(''error'', JObj [(''code'', JStr ''NETWORK_ERROR''),
                              (''message'', JStr (String_error err))])]"
          "[(''code'', JStr ''NETWORK_ERROR''), (''message'', JStr (String_error err))]"
          "String_error err"]
    by (auto simp: network_error_def)
qed

lemma fetchApi_parsed:
  "fetch (fetchApi_request cfg path meth b) =
     Resolves \<lparr>status = code, json_body = Resolves parsed\<rparr> \<Longrightarrow>
   fetchApi cfg fetch path meth b = parsed"
  by (simp add: fetchApi_def fetchApi_settle_def)

lemma fetchApi_always [simp]:
  "fetchApi cfg (always outcome) path meth b = fetchApi_settle outcome"
  by (simp add: fetchApi_def always_def)

text \<open>
  Claim C2, amended. When the round trip succeeds and the body parses, \<^verbatim>\<open>fetchApi\<close>
  returns the parsed value unchanged, whatever the HTTP status. What the renderer then
  returns is a failure text exactly when the \<^verbatim>\<open>error\<close> field is truthy (not when it is
  merely present), and on a value of the declared type \<^verbatim>\<open>ApiResult\<close> it does return.
\<close>

theorem classified_by_truthy_error:
  assumes "fetch (fetchApi_request cfg path meth b) =
             Resolves \<lparr>status = code, json_body = Resolves parsed\<rparr>"
  shows "fetchApi cfg fetch path meth b = parsed
       \<and> (\<forall>r. toContent parsed = Inr r \<longrightarrow>
                (is_failure_text r \<longleftrightarrow> truthy (error_field parsed)))
       \<and> (is_ApiResult parsed \<longrightarrow> (\<exists>r. toContent parsed = Inr r))"
proof -
  have "fetchApi cfg fetch path meth b = parsed"
    using assms by (rule fetchApi_parsed)
  then show ?thesis
    using toContent_classification [of parsed] ApiResult_rendering [of parsed] by blast
qed

theorem classified_by_truthy_error_witness:
  "fetchApi example_config
     (always (Resolves \<lparr>status = 404,
                          json_body = Resolves (JObj [(''error'', JStr ''not found'')])\<rparr>))
     ''/contacts/7c9e6679'' ''GET'' None = JObj [(''error'', JStr ''not found'')]
   \<and> is_ApiResult (JObj [(''error'', JStr ''not found'')])
   \<and> truthy (error_field (JObj [(''error'', JStr ''not found'')]))
   \<and> toContent (JObj [(''error'', JStr ''not found'')]) =
       Inr \<lparr>content = [\<lparr>type = ''text'', text = ''Error: not found''\<rparr>]\<rparr>
   \<and> is_failure_text \<lparr>content = [\<lparr>type = ''text'', text = ''Error: not found''\<rparr>]\<rparr>"
proof -
  let ?parsed = "JObj [(''error'', JStr ''not found'')]"
  let ?fetch = "always (Resolves \<lparr>status = 404, json_body = Resolves ?parsed\<rparr>)"
  have settled: "?fetch (fetchApi_request example_config ''/contacts/7c9e6679'' ''GET'' None) =
                   Resolves \<lparr>status = 404, json_body = Resolves ?parsed\<rparr>"
    by (simp add: always_def)
  have rendered: "toContent ?parsed =
                    Inr \<lparr>content = [\<lparr>type = ''text'', text = ''Error: not found''\<rparr>]\<rparr>"
    by (simp add: render_defs)
  have typed: "is_ApiResult ?parsed"
    by (simp add: optional_def)
  have field: "truthy (error_field ?parsed)"
    by (simp add: error_field_def truthy_def)
  from classified_by_truthy_error [where fetch = ?fetch, OF settled] rendered typed field
  show ?thesis
    by simp
qed

theorem empty_error_rendered_as_success:
  \<open>error_field (JObj [(''error'', JStr [])]) = Some (JStr [])
   \<and> toContent
        (fetchApi example_config
           (always (Resolves \<lparr>status = 200,
                                json_body = Resolves (JObj [(''error'', JStr [])])\<rparr>))
           ''/contacts'' ''GET'' None) =
       Inr \<lparr>content = [\<lparr>type = ''text'',
                        text = ''{'' @ [CHR 0x0A] @ ''  "error": ""'' @ [CHR 0x0A] @ ''}''\<rparr>]\<rparr>
   \<and> \<not> is_failure_text
          \<lparr>content = [\<lparr>type = ''text'',
                       text = ''{'' @ [CHR 0x0A] @ ''  "error": ""'' @ [CHR 0x0A] @ ''}''\<rparr>]\<rparr>\<close>
  by (simp add: error_field_def fetchApi_settle_def render_defs json_text_defs
        is_failure_text_def)

text \<open>
  Claim C3, amended. When the round trip succeeds with an object that has no \<^verbatim>\<open>error\<close>
  field, the rendering is one text block: the two-space pretty print of the \<^verbatim>\<open>data\<close>
  field when that field is present and not \<^verbatim>\<open>null\<close>, and of the whole object otherwise.
\<close>

theorem success_rendering:
  assumes "fetch (fetchApi_request cfg path meth b) =
             Resolves \<lparr>status = code, json_body = Resolves (JObj ms)\<rparr>"
    and "map_of ms ''error'' = None"
  shows "toContent (fetchApi cfg fetch path meth b) =
           Inr \<lparr>content =
                  [\<lparr>type = ''text'',
                    text = JSON_stringify_2
                             (case map_of ms ''data'' of
                                None \<Rightarrow> JObj ms
                              | Some JNull \<Rightarrow> JObj ms
                              | Some d \<Rightarrow> d)\<rparr>]\<rparr>"
proof -
  have "\<not> truthy (map_of ms ''error'')"
    using assms(2) by (simp add: truthy_def)
  moreover have "fetchApi cfg fetch path meth b = JObj ms"
    using assms(1) by (rule fetchApi_parsed)
  ultimately show ?thesis
    using toContent_success [of ms] by (simp add: text_content_def nullish_or_def)
qed

theorem success_rendering_witness:
  \<open>toContent
     (fetchApi example_config
        (always (Resolves \<lparr>status = 200,
                             json_body = Resolves (JObj [(''data'', JArr [JNum 1, JNum 20]),
                                                         (''meta'', JObj [(''total'', JNum 2)])])\<rparr>))
        ''/contacts'' ''GET'' None) =
     Inr \<lparr>content = [\<lparr>type = ''text'',
                      text = ''['' @ [CHR 0x0A] @ ''  1,'' @ [CHR 0x0A] @ ''  20''
                             @ [CHR 0x0A] @ '']''\<rparr>]\<rparr>
   \<and> toContent
       (fetchApi example_config
          (always (Resolves \<lparr>status = 200,
                               json_body = Resolves (JObj [(''id'', JNum 7)])\<rparr>))
          ''/contacts'' ''GET'' None) =
       Inr \<lparr>content = [\<lparr>type = ''text'',
                        text = ''{'' @ [CHR 0x0A] @ ''  "id": 7'' @ [CHR 0x0A] @ ''}''\<rparr>]\<rparr>\<close>
proof -
  let ?with_data = "[(''data'', JArr [JNum 1, JNum 20]), (''meta'', JObj [(''total'', JNum 2)])]"
  let ?bare = "[(''id'', JNum 7)]"
  let ?reply = "\<lambda>ms. always (Resolves \<lparr>status = 200, json_body = Resolves (JObj ms)\<rparr>)"
  have "?reply ?with_data (fetchApi_request example_config ''/contacts'' ''GET'' None) =
          Resolves \<lparr>status = 200, json_body = Resolves (JObj ?with_data)\<rparr>"
    and "map_of ?with_data ''error'' = None"
    by (simp_all add: always_def)
  note first = success_rendering [where fetch = "?reply ?with_data", OF this]
  have "?reply ?bare (fetchApi_request example_config ''/contacts'' ''GET'' None) =
          Resolves \<lparr>status = 200, json_body = Resolves (JObj ?bare)\<rparr>"
    and "map_of ?bare ''error'' = None"
    by (simp_all add: always_def)
  note second = success_rendering [where fetch = "?reply ?bare", OF this]
  from first second show ?thesis
    by (simp add: json_text_defs digits.simps)
qed

theorem null_data_renders_payload:
  \<open>map_of [(''data'', JNull)] ''error'' = None
   \<and> map_of [(''data'', JNull)] ''data'' = Some JNull
   \<and> toContent
       (fetchApi example_config
          (always (Resolves \<lparr>status = 200,
                               json_body = Resolves (JObj [(''data'', JNull)])\<rparr>))
          ''/contacts'' ''GET'' None) =
       Inr \<lparr>content = [\<lparr>type = ''text'',
                        text = ''{'' @ [CHR 0x0A] @ ''  "data": null'' @ [CHR 0x0A] @ ''}''\<rparr>]\<rparr>
   \<and> JSON_stringify_2 JNull = ''null''\<close>
  by (simp add: fetchApi_settle_def render_defs json_text_defs)







section \<open>The HTTP helper and the handlers\<close>

text \<open>
  Claim C4. When \<^verbatim>\<open>fetch\<close> rejects, \<^verbatim>\<open>fetchApi\<close> returns the failure with code
  \<^verbatim>\<open>NETWORK_ERROR\<close> and the stringified cause as message, and the renderer makes of it
  one text block that starts with \<^verbatim>\<open>Error: \<close>: nothing is thrown on the way.
\<close>

theorem transport_failure:
  assumes "fetch (fetchApi_request cfg path meth b) = Rejects err"
  shows "fetchApi cfg fetch path meth b =
           JObj [(''error'', JObj [(''code'', JStr ''NETWORK_ERROR''),
                                   (''message'', JStr (String_error err))])]
       \<and> (\<exists>t. toContent (fetchApi cfg fetch path meth b) =
                 Inr \<lparr>content = [\<lparr>type = ''text'', text = ''Error: '' @ t\<rparr>]\<rparr>)"
proof -
  have "fetchApi cfg fetch path meth b = network_error err"
    using assms by (simp add: fetchApi_def fetchApi_settle_def)
  then show ?thesis
    using network_error_rendering [of err] by (simp add: network_error_def text_content_def)
qed

theorem transport_failure_witness:
  "fetchApi example_config (always (Rejects (ErrorObject ''TypeError'' ''fetch failed'')))
     ''/contacts'' ''GET'' None =
     JObj [(''error'', JObj [(''code'', JStr ''NETWORK_ERROR''),
                             (''message'', JStr ''TypeError: fetch failed'')])]
   \<and> toContent
       (fetchApi example_config (always (Rejects (ErrorObject ''TypeError'' ''fetch failed'')))
          ''/contacts'' ''GET'' None) =
       Inr \<lparr>content = [\<lparr>type = ''text'', text = ''Error: TypeError: fetch failed''\<rparr>]\<rparr>"
proof -
  let ?fetch = "always (Rejects (ErrorObject ''TypeError'' ''fetch failed''))"
  have rejected: "?fetch (fetchApi_request example_config ''/contacts'' ''GET'' None) =
                    Rejects (ErrorObject ''TypeError'' ''fetch failed'')"
    by (simp add: always_def)
  from transport_failure [where fetch = ?fetch, OF rejected] show ?thesis
    by (simp add: render_defs)
qed

text \<open>
  Claim C10. When \<^verbatim>\<open>fetch\<close> resolves but \<^verbatim>\<open>res.json()\<close> rejects (the body is not JSON),
  the same \<^verbatim>\<open>catch\<close> applies: \<^verbatim>\<open>fetchApi\<close> returns the \<^verbatim>\<open>NETWORK_ERROR\<close> failure carrying
  the stringified parse error, whatever the status, and the rendering is an \<^verbatim>\<open>Error: \<close>
  text.
\<close>

theorem body_parse_failure:
  assumes "fetch (fetchApi_request cfg path meth b) =
             Resolves \<lparr>status = code, json_body = Rejects err\<rparr>"
  shows "fetchApi cfg fetch path meth b =
           JObj [(''error'', JObj [(''code'', JStr ''NETWORK_ERROR''),
                                   (''message'', JStr (String_error err))])]
       \<and> (\<exists>t. toContent (fetchApi cfg fetch path meth b) =
                 Inr \<lparr>content = [\<lparr>type = ''text'', text = ''Error: '' @ t\<rparr>]\<rparr>)"
proof -
  have "fetchApi cfg fetch path meth b = network_error err"
    using assms by (simp add: fetchApi_def fetchApi_settle_def)
  then show ?thesis
    using network_error_rendering [of err] by (simp add: network_error_def text_content_def)
qed

theorem body_parse_failure_witness:
  "fetchApi example_config
     (always (Resolves \<lparr>status = 502,
                          json_body = Rejects (ErrorObject ''SyntaxError''
                                                 ''Unexpected token < in JSON at position 0'')\<rparr>))
     ''/contacts'' ''GET'' None =
     JObj [(''error'',
            JObj [(''code'', JStr ''NETWORK_ERROR''),
                  (''message'', JStr ''SyntaxError: Unexpected token < in JSON at position 0'')])]
   \<and> toContent
       (fetchApi example_config
          (always (Resolves \<lparr>status = 502,
                               json_body = Rejects (ErrorObject ''SyntaxError''
                                                      ''Unexpected token < in JSON at position 0'')\<rparr>))
          ''/contacts'' ''GET'' None) =
       Inr \<lparr>content =
              [\<lparr>type = ''text'',
                text = ''Error: SyntaxError: Unexpected token < in JSON at position 0''\<rparr>]\<rparr>"
proof -
  let ?err = "ErrorObject ''SyntaxError'' ''Unexpected token < in JSON at position 0''"
  let ?fetch = "always (Resolves \<lparr>status = 502, json_body = Rejects ?err\<rparr>)"
  have unparsed: "?fetch (fetchApi_request example_config ''/contacts'' ''GET'' None) =
                    Resolves \<lparr>status = 502, json_body = Rejects ?err\<rparr>"
    by (simp add: always_def)
  from body_parse_failure [where fetch = ?fetch, OF unparsed] show ?thesis
    by (simp add: render_defs)
qed

text \<open>
  Claim C6. A request whose method is \<^verbatim>\<open>GET\<close> carries no body, whatever body value was
  passed to \<^verbatim>\<open>fetchApi\<close>, and the result is the one obtained with no body value at all.
\<close>

theorem get_has_no_body:
  "body (fetchApi_request cfg path ''GET'' b) = None
   \<and> fetchApi cfg fetch path ''GET'' b = fetchApi cfg fetch path ''GET'' None"
  by (simp add: fetchApi_def fetchApi_request_def split: option.splits)

lemma template_string [simp]: "template (Some (JStr s)) = Inr s"
  by (simp add: template_def)

lemma fetchApi_request_api:
  "fetchApi_request cfg path meth b =
     api_request cfg meth path
       (case b of None \<Rightarrow> None
        | Some ms \<Rightarrow> if meth \<noteq> ''GET'' then Some (JSON_stringify (JObj ms)) else None)"
  by (simp add: fetchApi_request_def api_request_def)

lemma map_of_rest_without:
  "map_of (rest_without key args) k = (if k = key then None else map_of args k)"
  by (induction args) (auto simp: rest_without_def)

text \<open>
  Claim C7. \<^verbatim>\<open>delete_company\<close> and \<^verbatim>\<open>delete_note\<close>, called with an \<^verbatim>\<open>id\<close> string and a
  \<^verbatim>\<open>permanent\<close> that is a boolean or absent, send one \<^verbatim>\<open>DELETE\<close> request without body;
  its path is \<^verbatim>\<open>/companies/<id>\<close> (or \<^verbatim>\<open>/notes/<id>\<close>) followed by the literal
  \<^verbatim>\<open>?permanent=true\<close> when \<^verbatim>\<open>permanent\<close> is true, and by nothing when it is false or
  absent. The handler's result is the rendering of what that request settles to.
\<close>

theorem permanent_flag:
  fixes id :: string
  assumes "map_of args ''id'' = Some (JStr id)"
    and "map_of args ''permanent'' = map_option JBool permanent"
  shows "delete_company cfg fetch args =
           toContent (fetchApi_settle (fetch
             (api_request cfg ''DELETE''
                (''/companies/'' @ id @ (if permanent = Some True then ''?permanent=true'' else []))
                None)))
       \<and> delete_note cfg fetch args =
           toContent (fetchApi_settle (fetch
             (api_request cfg ''DELETE''
                (''/notes/'' @ id @ (if permanent = Some True then ''?permanent=true'' else []))
                None)))"
proof -
  have "truthy (map_of args ''permanent'') \<longleftrightarrow> permanent = Some True"
    using assms(2) by (cases permanent) (auto simp: truthy_def)
  then show ?thesis
    using assms(1)
    by (simp add: delete_company_def delete_note_def fetchApi_def fetchApi_request_api)
qed

theorem permanent_flag_witness:
  "delete_company example_config echo [(''id'', JStr ''7c9e6679''), (''permanent'', JBool True)] =
     Inr \<lparr>content =
            [\<lparr>type = ''text'',
              text = [CHR 0x22]
                     @ ''DELETE https://app.keepsake.place/api/v1/companies/7c9e6679?permanent=true''
                     @ [CHR 0x22]\<rparr>]\<rparr>
   \<and> delete_note example_config echo [(''id'', JStr ''7c9e6679''), (''permanent'', JBool False)] =
       Inr \<lparr>content =
              [\<lparr>type = ''text'',
                text = [CHR 0x22]
                       @ ''DELETE https://app.keepsake.place/api/v1/notes/7c9e6679''
                       @ [CHR 0x22]\<rparr>]\<rparr>
   \<and> delete_company example_config echo [(''id'', JStr ''7c9e6679'')] =
       Inr \<lparr>content =
              [\<lparr>type = ''text'',
                text = [CHR 0x22]
                       @ ''DELETE https://app.keepsake.place/api/v1/companies/7c9e6679''
                       @ [CHR 0x22]\<rparr>]\<rparr>"
proof -
  have hard: "map_of [(''id'', JStr ''7c9e6679''), (''permanent'', JBool True)] ''id'' =
                Some (JStr ''7c9e6679'')"
    "map_of [(''id'', JStr ''7c9e6679''), (''permanent'', JBool True)] ''permanent'' =
       map_option JBool (Some True)"
    by simp_all
  have soft: "map_of [(''id'', JStr ''7c9e6679''), (''permanent'', JBool False)] ''id'' =
                Some (JStr ''7c9e6679'')"
    "map_of [(''id'', JStr ''7c9e6679''), (''permanent'', JBool False)] ''permanent'' =
       map_option JBool (Some False)"
    by simp_all
  have absent: "map_of [(''id'', JStr ''7c9e6679'')] ''id'' = Some (JStr ''7c9e6679'')"
    "map_of [(''id'', JStr ''7c9e6679'')] ''permanent'' = map_option JBool None"
    by simp_all
  from permanent_flag [where fetch = echo and cfg = example_config, OF hard]
    permanent_flag [where fetch = echo and cfg = example_config, OF soft]
    permanent_flag [where fetch = echo and cfg = example_config, OF absent]
  show ?thesis
    by (simp add: api_request_def echo_def example_config_def fetchApi_settle_def
          render_defs json_text_defs)
qed

lemma SerializeJSONObject_compact:
  "SerializeJSONObject [] [] ms =
     map (\<lambda>(k, v). QuoteJSONString k @ '':'' @ JSON_stringify v) ms"
  by (induction ms) (auto simp: JSON_stringify_def)

lemma JSON_stringify_object: "JSON_stringify (JObj ms) = compact_object ms"
  by (simp add: JSON_stringify_def compact_object_def bracket_def SerializeJSONObject_compact)

text \<open>
  Claim C8. Each update handler, called with an \<^verbatim>\<open>id\<close> string, sends one \<^verbatim>\<open>PATCH\<close>
  request to the path that ends in that id. The body is a JSON object text whose members
  are the arguments other than \<^verbatim>\<open>id\<close>, in their order, each under its key with the JSON
  text of its value: there is no \<^verbatim>\<open>id\<close> member, and every other argument is there
  unchanged.
\<close>

theorem update_splits_id:
  fixes id :: string
  assumes "map_of args ''id'' = Some (JStr id)"
  shows "update_contact cfg fetch args =
           toContent (fetchApi_settle (fetch
             (api_request cfg ''PATCH'' (''/contacts/'' @ id)
                (Some (compact_object (filter (\<lambda>(k, v). k \<noteq> ''id'') args))))))
       \<and> update_company cfg fetch args =
           toContent (fetchApi_settle (fetch
             (api_request cfg ''PATCH'' (''/companies/'' @ id)
                (Some (compact_object (filter (\<lambda>(k, v). k \<noteq> ''id'') args))))))
       \<and> update_entry cfg fetch args =
           toContent (fetchApi_settle (fetch
             (api_request cfg ''PATCH'' (''/entries/'' @ id)
                (Some (compact_object (filter (\<lambda>(k, v). k \<noteq> ''id'') args))))))
       \<and> update_task cfg fetch args =
           toContent (fetchApi_settle (fetch
             (api_request cfg ''PATCH'' (''/tasks/'' @ id)
                (Some (compact_object (filter (\<lambda>(k, v). k \<noteq> ''id'') args))))))
       \<and> update_note cfg fetch args =
           toContent (fetchApi_settle (fetch
             (api_request cfg ''PATCH'' (''/notes/'' @ id)
                (Some (compact_object (filter (\<lambda>(k, v). k \<noteq> ''id'') args))))))
       \<and> map_of (filter (\<lambda>(k, v). k \<noteq> ''id'') args) ''id'' = None
       \<and> (key \<noteq> ''id'' \<longrightarrow> map_of (filter (\<lambda>(k, v). k \<noteq> ''id'') args) key = map_of args key)"
  using assms map_of_rest_without [of "''id''" args]
  by (simp add: update_contact_def update_company_def update_entry_def update_task_def
        update_note_def fetchApi_def fetchApi_request_api JSON_stringify_object rest_without_def)

text \<open>
  The example network answers only the request with exactly this URL, method, headers
  and body; any other request is refused and would render as an \<^verbatim>\<open>Error: \<close> text.
\<close>

theorem update_splits_id_witness:
  \<open>update_contact example_config
     (only \<lparr>url = ''https://app.keepsake.place/api/v1/contacts/7c9e6679'',
             method = ''PATCH'',
             headers = [(''Authorization'', ''Bearer ksk_example''),
                        (''Content-Type'', ''application/json'')],
             body = Some ''{"first_name":"Ada","tags":["a","b"],"notes":""}''\<rparr>
        (Resolves \<lparr>status = 200, json_body = Resolves (JObj [(''data'', JStr ''updated'')])\<rparr>))
     [(''first_name'', JStr ''Ada''), (''id'', JStr ''7c9e6679''),
      (''tags'', JArr [JStr ''a'', JStr ''b'']), (''notes'', JStr [])] =
     Inr \<lparr>content = [\<lparr>type = ''text'', text = ''"updated"''\<rparr>]\<rparr>
   \<and> update_contact example_config
       (only \<lparr>url = ''https://app.keepsake.place/api/v1/contacts/7c9e6679'',
               method = ''PATCH'',
               headers = [(''Authorization'', ''Bearer ksk_example''),
                          (''Content-Type'', ''application/json'')],
               body = Some ''{"id":"7c9e6679","first_name":"Ada"}''\<rparr>
          (Resolves \<lparr>status = 200, json_body = Resolves (JObj [(''data'', JStr ''updated'')])\<rparr>))
       [(''id'', JStr ''7c9e6679''), (''first_name'', JStr ''Ada'')] =
       Inr \<lparr>content = [\<lparr>type = ''text'', text = ''Error: TypeError: fetch failed''\<rparr>]\<rparr>\<close>
proof -
  let ?ok = "Resolves \<lparr>status = 200, json_body = Resolves (JObj [(''data'', JStr ''updated'')])\<rparr>"
  have first: "map_of [(''first_name'', JStr ''Ada''), (''id'', JStr ''7c9e6679''),
                       (''tags'', JArr [JStr ''a'', JStr ''b'']), (''notes'', JStr [])] ''id'' =
                 Some (JStr ''7c9e6679'')"
    by simp
  have second: "map_of [(''id'', JStr ''7c9e6679''), (''first_name'', JStr ''Ada'')] ''id'' =
                  Some (JStr ''7c9e6679'')"
    by simp
  from update_splits_id [where cfg = example_config, OF first]
    update_splits_id [where cfg = example_config, OF second]
  show ?thesis
    by (simp add: only_def api_request_def example_config_def fetchApi_settle_def
          compact_object_def network_error_def render_defs json_text_defs)
qed


end
